theory Spec2Isabelle
  imports Main "HOL-Library.Sublist"
begin

section \<open>Data model\<close>

text \<open>
  The option type of \<open>lib/ts/types.ts\<close> as \<open>mapOptionsToChoices\<close> reads it: a display
  name, a value and the optional field \<open>shouldDisplay\<close> (\<open>None\<close> is the absent field,
  JavaScript's \<open>undefined\<close>).
\<close>

record QuestionOption =
  displayName :: string
  option_value :: string
  shouldDisplay :: "bool option"

text \<open>
  \<open>PromptListChoice\<close>: the object literal \<open>{ name, value }\<close> that \<open>mapOptionsToChoices\<close>
  builds and that the strategies filter on \<open>choice.value\<close>.
\<close>

record PromptListChoice =
  name :: string
  choice_value :: string

text \<open>
  \<open>UserFlags\<close>: the two fields the strategies read. Both are optional in a flags object,
  so a field that was never set is \<open>None\<close>.
\<close>

record UserFlags =
  uibuild :: "string option"
  frontend :: "string option"

text \<open>
  Modelled from the spec: the constant \<open>UIBuildType.PRE_BUILT\<close> of \<open>lib/ts/types.ts\<close>,
  which is not among the sources. The spec gives its value as "pre-built".
\<close>

definition PRE_BUILT :: string where
  "PRE_BUILT = ''pre-built''"

text \<open>
  Modelled from the spec: the enum \<open>FILTER_CHOICES_STRATEGY\<close> of \<open>lib/ts/types.ts\<close>, which
  is not among the sources. The registry \<open>STRATEGIES\<close> has the two keys
  \<open>UI_BUILD_FRONTEND\<close> and \<open>UI_BUILD_RECIPE\<close>; the spec calls them enumerated tags that are
  never confused with an omitted argument, so both are truthy values; their texts are
  taken to be ordinary tags, with no meaning of their own to the JavaScript run time (not
  the name of a built-in property, not the text an array or a boolean turns into).
  \<open>UNREGISTERED s\<close> is any other string \<open>s\<close> that reaches the loop at run time: the
  parameter type does not admit it, the compiled code does.
\<close>

datatype FILTER_CHOICES_STRATEGY =
  UI_BUILD_FRONTEND
  | UI_BUILD_RECIPE
  | UNREGISTERED string

text \<open>
  A thrown \<open>Error\<close> object, identified by its message, or a \<open>TypeError\<close> of the run time
  (calling what is not a function, reading a property of \<open>undefined\<close>), whose message
  depends on the engine.
\<close>

datatype error = Error string | TypeError

text \<open>
  The values the variable \<open>choices\<close> can hold while \<open>filterChoices\<close> runs. It starts as
  an array of choices; the other values are what the members that the object literal
  \<open>STRATEGIES\<close> inherits from \<open>Object.prototype\<close> return when the loop calls them.
\<close>

datatype js_value =
  Choices "PromptListChoice list"
  | ObjectObjectString \<comment> \<open>the string \<open>"[object Object]"\<close>\<close>
  | FalseValue \<comment> \<open>the boolean \<open>false\<close>\<close>
  | UndefinedValue \<comment> \<open>\<open>undefined\<close>\<close>
  | RegistryObject \<comment> \<open>the object \<open>STRATEGIES\<close> itself\<close>
  | StringObject \<comment> \<open>the wrapper object of the string \<open>"[object Object]"\<close>\<close>
  | BooleanObject \<comment> \<open>the wrapper object of \<open>false\<close>\<close>
  | EmptyObject \<comment> \<open>a new object \<open>{}\<close>\<close>

text \<open>
  An asynchronous function returning \<open>Promise<PromptListChoice[]>\<close> either resolves to a
  list or rejects with an error: \<open>Inr\<close> the list, \<open>Inl\<close> the error.
\<close>

type_synonym choices_result = "error + PromptListChoice list"

text \<open>What the promise returned by \<open>filterChoices\<close> settles to.\<close>

type_synonym filter_result = "error + js_value"

text \<open>
  The first argument of the function \<open>filterChoices(flags)\<close> returns: a list, or a
  promise, which may have been rejected and which is awaited whatever it resolves to
  (the promise of another \<open>filterChoices\<close> call, for one).
\<close>

datatype choices_arg =
  Resolved "PromptListChoice list"
  | Pending filter_result

text \<open>
  The optional second argument: absent, one identifier, an array of identifiers, or a
  custom function on the choices.
\<close>

datatype strategy_arg =
  Omitted
  | Single FILTER_CHOICES_STRATEGY
  | Many "FILTER_CHOICES_STRATEGY list"
  | Custom "js_value \<Rightarrow> filter_result"

section \<open>The option mapper\<close>

definition mapOptionsToChoices :: "QuestionOption list \<Rightarrow> PromptListChoice list" where
  "mapOptionsToChoices options =
     map (\<lambda>option. \<lparr>name = displayName option, choice_value = option_value option\<rparr>)
       (filter (\<lambda>i. shouldDisplay i \<noteq> Some False) options)"

section \<open>The strategy registry\<close>

definition SUPPORTED_FRONTENDS_CUSTOM_UI :: "string list" where
  "SUPPORTED_FRONTENDS_CUSTOM_UI = [''react'']"

definition SUPPORTED_RECIPES_CUSTOM_UI :: "string list" where
  "SUPPORTED_RECIPES_CUSTOM_UI = [''emailpassword'', ''thirdpartyemailpassword'']"

text \<open>\<open>Array.prototype.includes\<close> on an array of strings.\<close>

definition array_includes :: "string list \<Rightarrow> string \<Rightarrow> bool" where
  "array_includes xs x = (x \<in> set xs)"

definition NO_RECIPES :: error where
  "NO_RECIPES = Error ''No Recipes Available for the selected UI Build Type and Frontend''"

definition strategy_UI_BUILD_FRONTEND ::
    "PromptListChoice list \<Rightarrow> UserFlags \<Rightarrow> choices_result" where
  "strategy_UI_BUILD_FRONTEND choices flags =
     (if uibuild flags = Some PRE_BUILT then Inr choices
      else Inr (filter (\<lambda>choice. array_includes SUPPORTED_FRONTENDS_CUSTOM_UI (choice_value choice))
                  choices))"

definition strategy_UI_BUILD_RECIPE ::
    "PromptListChoice list \<Rightarrow> UserFlags \<Rightarrow> choices_result" where
  "strategy_UI_BUILD_RECIPE choices flags =
     (if uibuild flags = Some PRE_BUILT then Inr choices
      else if frontend flags \<noteq> Some ''react'' then Inl NO_RECIPES
      else Inr (filter (\<lambda>choice. array_includes SUPPORTED_RECIPES_CUSTOM_UI (choice_value choice))
                  choices))"

text \<open>A resolved list as a value of the variable \<open>choices\<close>.\<close>

definition resolved_choices :: "choices_result \<Rightarrow> filter_result" where
  "resolved_choices r = (case r of Inl e \<Rightarrow> Inl e | Inr cs \<Rightarrow> Inr (Choices cs))"

text \<open>
  The two strategies as the loop calls them, with whatever \<open>choices\<close> holds. On an array
  they are the functions above. On any other value the \<open>"pre-built"\<close> branch returns the
  value as it is, and the call \<open>choices.filter(...)\<close> throws a \<open>TypeError\<close>: none of the
  other values has a \<open>filter\<close> method.
\<close>

definition call_UI_BUILD_FRONTEND :: "js_value \<Rightarrow> UserFlags \<Rightarrow> filter_result" where
  "call_UI_BUILD_FRONTEND choices flags =
     (case choices of
        Choices cs \<Rightarrow> resolved_choices (strategy_UI_BUILD_FRONTEND cs flags)
      | _ \<Rightarrow> (if uibuild flags = Some PRE_BUILT then Inr choices else Inl TypeError))"

definition call_UI_BUILD_RECIPE :: "js_value \<Rightarrow> UserFlags \<Rightarrow> filter_result" where
  "call_UI_BUILD_RECIPE choices flags =
     (case choices of
        Choices cs \<Rightarrow> resolved_choices (strategy_UI_BUILD_RECIPE cs flags)
      | _ \<Rightarrow> (if uibuild flags = Some PRE_BUILT then Inr choices
             else if frontend flags \<noteq> Some ''react'' then Inl NO_RECIPES
             else Inl TypeError))"

text \<open>
  What a property lookup on \<open>STRATEGIES\<close> finds: a function, called with
  \<open>(choices, flags)\<close>, or an object that is not a function.
\<close>

datatype registry_member =
  Function "js_value \<Rightarrow> UserFlags \<Rightarrow> filter_result"
  | Not_callable

text \<open>\<open>Object(value)\<close>: an object is returned as it is, a primitive value is wrapped.\<close>

fun ToObject :: "js_value \<Rightarrow> js_value" where
  "ToObject ObjectObjectString = StringObject"
| "ToObject FalseValue = BooleanObject"
| "ToObject UndefinedValue = EmptyObject"
| "ToObject v = v"


definition Object_prototype :: "string \<Rightarrow> registry_member option" where
  "Object_prototype key =
     (if key = ''constructor'' then Some (Function (\<lambda>choices flags. Inr (ToObject choices)))
      else if key = ''toString'' \<or> key = ''toLocaleString''
        then Some (Function (\<lambda>choices flags. Inr ObjectObjectString))
      else if key = ''valueOf'' then Some (Function (\<lambda>choices flags. Inr RegistryObject))
      else if key = ''hasOwnProperty'' \<or> key = ''isPrototypeOf''
              \<or> key = ''propertyIsEnumerable''
        then Some (Function (\<lambda>choices flags. Inr FalseValue))
      else if key = ''__lookupGetter__'' \<or> key = ''__lookupSetter__''
        then Some (Function (\<lambda>choices flags. Inr UndefinedValue))
      else if key = ''__defineGetter__'' \<or> key = ''__defineSetter__''
        then Some (Function (\<lambda>choices flags. Inl TypeError))
      else if key = ''__proto__'' then Some Not_callable
      else None)"

text \<open>
  The lookup \<open>STRATEGIES[filter]\<close>; \<open>None\<close> is \<open>undefined\<close>. The two keys of the literal
  come first, then what is inherited.
\<close>

fun STRATEGIES :: "FILTER_CHOICES_STRATEGY \<Rightarrow> registry_member option" where
  "STRATEGIES UI_BUILD_FRONTEND = Some (Function call_UI_BUILD_FRONTEND)"
| "STRATEGIES UI_BUILD_RECIPE = Some (Function call_UI_BUILD_RECIPE)"
| "STRATEGIES (UNREGISTERED key) = Object_prototype key"

section \<open>The composition function\<close>

text \<open>
  The loop \<open>for (const filter of strategy)\<close>: an identifier whose lookup is \<open>undefined\<close>
  is skipped; what the lookup finds is called, which throws when it is not a function; a
  rejected call ends the loop with its error, a resolved one replaces \<open>choices\<close>.
\<close>

fun apply_strategies ::
    "UserFlags \<Rightarrow> FILTER_CHOICES_STRATEGY list \<Rightarrow> js_value \<Rightarrow> filter_result"
where
  "apply_strategies flags [] choices = Inr choices"
| "apply_strategies flags (strategy_id # rest) choices =
     (case STRATEGIES strategy_id of
        None \<Rightarrow> apply_strategies flags rest choices
      | Some Not_callable \<Rightarrow> Inl TypeError
      | Some (Function f) \<Rightarrow>
          (case f choices flags of
             Inl e \<Rightarrow> Inl e
           | Inr choices' \<Rightarrow> apply_strategies flags rest choices'))"

text \<open>
  The test \<open>!strategy\<close>: true of the absent argument and of a falsy identifier, which
  among the identifiers is only the empty string.
\<close>

fun falsy :: "strategy_arg \<Rightarrow> bool" where
  "falsy Omitted = True"
| "falsy (Single (UNREGISTERED s)) = (s = [])"
| "falsy (Single _) = False"
| "falsy (Many _) = False"
| "falsy (Custom _) = False"

fun is_empty_array :: "strategy_arg \<Rightarrow> bool" where
  "is_empty_array (Many ss) = (length ss = 0)"
| "is_empty_array _ = False"

text \<open>The body of \<open>filterChoices\<close> once \<open>choices\<close> has been awaited.\<close>

definition filterChoices_resolved ::
    "UserFlags \<Rightarrow> js_value \<Rightarrow> strategy_arg \<Rightarrow> filter_result" where
  "filterChoices_resolved flags choices strategy =
     (if falsy strategy \<or> is_empty_array strategy then Inr choices
      else (case strategy of
              Custom f \<Rightarrow> f choices
            | Single s \<Rightarrow> apply_strategies flags [s] choices
            | Many ss \<Rightarrow> apply_strategies flags ss choices
            | Omitted \<Rightarrow> Inr choices))"

text \<open>
  \<open>filterChoices(flags)(choices, strategy)\<close>. A promise passed as \<open>choices\<close> is awaited
  first; when it was rejected the \<open>await\<close> throws and the call rejects with that error.
\<close>

definition filterChoices :: "UserFlags \<Rightarrow> choices_arg \<Rightarrow> strategy_arg \<Rightarrow> filter_result" where
  "filterChoices flags choices strategy =
     (case choices of
        Pending (Inl e) \<Rightarrow> Inl e
      | Pending (Inr v) \<Rightarrow> filterChoices_resolved flags v strategy
      | Resolved cs \<Rightarrow> filterChoices_resolved flags (Choices cs) strategy)"



section \<open>The spec's reading of the option mapper\<close>

text \<open>
  The spec's description of the mapper, written down on its own to compare with the code:
  walk the options in order, drop an option whose \<open>shouldDisplay\<close> is present and false,
  and emit \<open>{name = displayName, value = value}\<close> for every other one.
\<close>

fun displayed_choices_spec :: "QuestionOption list \<Rightarrow> PromptListChoice list" where
  "displayed_choices_spec [] = []"
| "displayed_choices_spec (opt # rest) =
     (case shouldDisplay opt of
        Some False \<Rightarrow> displayed_choices_spec rest
      | _ \<Rightarrow> \<lparr>name = displayName opt, choice_value = option_value opt\<rparr>
               # displayed_choices_spec rest)"

section \<open>Auxiliary facts\<close>

lemma array_includes_iff: "array_includes xs x = (x \<in> set xs)"
  by (simp add: array_includes_def)











lemma filterChoices_resolved_Many:
  "filterChoices_resolved flags v (Many ss) = apply_strategies flags ss v"
  by (cases ss) (simp_all add: filterChoices_resolved_def)

lemma filterChoices_resolved_Single:
  "filterChoices_resolved flags v (Single s) = apply_strategies flags [s] v"
proof (cases s)
  case (UNREGISTERED key)
  then show ?thesis
    by (simp add: filterChoices_resolved_def Object_prototype_def)
qed (simp_all add: filterChoices_resolved_def)




lemma apply_strategies_append:
  "apply_strategies flags (xs @ ys) v =
     (case apply_strategies flags xs v of
        Inl e \<Rightarrow> Inl e
      | Inr mid \<Rightarrow> apply_strategies flags ys mid)"
  by (induction xs arbitrary: v) (auto split: option.splits sum.splits registry_member.splits)




section \<open>The claims\<close>

text \<open>
  Claim C1. The recipe strategy rejects with the error "No Recipes Available for the
  selected UI Build Type and Frontend" exactly when the \<open>uibuild\<close> flag is not "pre-built"
  and the \<open>frontend\<close> flag is not "react"; it raises no other error, and in every other
  case it resolves to a choice list.
\<close>

theorem recipe_strategy_raises_iff:
  "(strategy_UI_BUILD_RECIPE choices flags =
      Inl (Error ''No Recipes Available for the selected UI Build Type and Frontend''))
     = (uibuild flags \<noteq> Some ''pre-built'' \<and> frontend flags \<noteq> Some ''react'')
   \<and> (\<exists>e. strategy_UI_BUILD_RECIPE choices flags = Inl e)
     = (uibuild flags \<noteq> Some ''pre-built'' \<and> frontend flags \<noteq> Some ''react'')
   \<and> (\<exists>out. strategy_UI_BUILD_RECIPE choices flags = Inr out)
     = (\<not> (uibuild flags \<noteq> Some ''pre-built'' \<and> frontend flags \<noteq> Some ''react''))"
  by (simp add: strategy_UI_BUILD_RECIPE_def PRE_BUILT_def NO_RECIPES_def)

text \<open>
  Claim C2. \<open>mapOptionsToChoices\<close> returns, in the order of the input, one choice
  \<open>{name = displayName, value = value}\<close> for each option whose \<open>shouldDisplay\<close> is not
  \<open>false\<close> (an absent field counts as displayed) and nothing else: it agrees with the
  spec's reading on every input, its length is the number of displayed options, and the
  empty input gives the empty output.
\<close>

theorem mapOptionsToChoices_displayed:
  "mapOptionsToChoices options = displayed_choices_spec options
   \<and> length (mapOptionsToChoices options)
       = length (filter (\<lambda>opt. shouldDisplay opt \<noteq> Some False) options)
   \<and> mapOptionsToChoices [] = []"
proof -
  have "mapOptionsToChoices options = displayed_choices_spec options"
    by (induction options) (auto simp: mapOptionsToChoices_def split: option.splits bool.splits)
  moreover have "length (mapOptionsToChoices options)
       = length (filter (\<lambda>opt. shouldDisplay opt \<noteq> Some False) options)"
    by (simp add: mapOptionsToChoices_def)
  moreover have "mapOptionsToChoices [] = []"
    by (simp add: mapOptionsToChoices_def)
  ultimately show ?thesis by simp
qed

text \<open>
  Claim C3. The frontend strategy resolves to the input unchanged when \<open>uibuild\<close> is
  "pre-built" and otherwise to the input choices whose value is in the allow-list
  \<open>["react"]\<close>; it never rejects. On the flags \<open>{uibuild: "custom", frontend: "react"}\<close>
  and the choices React, Vue it resolves to the React entry alone.
\<close>

theorem frontend_strategy_result:
  "strategy_UI_BUILD_FRONTEND choices flags =
     Inr (if uibuild flags = Some ''pre-built'' then choices
          else filter (\<lambda>choice. choice_value choice \<in> set [''react'']) choices)
   \<and> (\<forall>e. strategy_UI_BUILD_FRONTEND choices flags \<noteq> Inl e)
   \<and> strategy_UI_BUILD_FRONTEND
       [\<lparr>name = ''React'', choice_value = ''react''\<rparr>, \<lparr>name = ''Vue'', choice_value = ''vue''\<rparr>]
       \<lparr>uibuild = Some ''custom'', frontend = Some ''react''\<rparr>
     = Inr [\<lparr>name = ''React'', choice_value = ''react''\<rparr>]"
  by (simp add: strategy_UI_BUILD_FRONTEND_def PRE_BUILT_def SUPPORTED_FRONTENDS_CUSTOM_UI_def
      array_includes_iff)

text \<open>
  Claim C4. The recipe strategy resolves to the input unchanged when \<open>uibuild\<close> is
  "pre-built"; when \<open>uibuild\<close> is not "pre-built" and \<open>frontend\<close> is "react" it resolves
  to the input choices whose value is in the allow-list
  \<open>["emailpassword", "thirdpartyemailpassword"]\<close>. Of the three choices "emailpassword",
  "thirdpartyemailpassword" and "passwordless" it keeps exactly the first two.
\<close>

theorem recipe_strategy_result:
  "(uibuild flags = Some ''pre-built'' \<longrightarrow> strategy_UI_BUILD_RECIPE choices flags = Inr choices)
   \<and> (uibuild flags \<noteq> Some ''pre-built'' \<and> frontend flags = Some ''react'' \<longrightarrow>
        strategy_UI_BUILD_RECIPE choices flags =
          Inr (filter (\<lambda>choice. choice_value choice
                 \<in> set [''emailpassword'', ''thirdpartyemailpassword'']) choices))
   \<and> strategy_UI_BUILD_RECIPE
       [\<lparr>name = ''Email Password'', choice_value = ''emailpassword''\<rparr>,
        \<lparr>name = ''Social + Email Password'', choice_value = ''thirdpartyemailpassword''\<rparr>,
        \<lparr>name = ''Passwordless'', choice_value = ''passwordless''\<rparr>]
       \<lparr>uibuild = Some ''custom'', frontend = Some ''react''\<rparr>
     = Inr [\<lparr>name = ''Email Password'', choice_value = ''emailpassword''\<rparr>,
            \<lparr>name = ''Social + Email Password'', choice_value = ''thirdpartyemailpassword''\<rparr>]"
  by (simp add: strategy_UI_BUILD_RECIPE_def PRE_BUILT_def SUPPORTED_RECIPES_CUSTOM_UI_def
      array_includes_iff)

text \<open>Both cases of the previous theorem at concrete flags.\<close>

theorem recipe_strategy_result_witness:
  "strategy_UI_BUILD_RECIPE [\<lparr>name = ''Passwordless'', choice_value = ''passwordless''\<rparr>]
       \<lparr>uibuild = Some ''pre-built'', frontend = Some ''vue''\<rparr>
     = Inr [\<lparr>name = ''Passwordless'', choice_value = ''passwordless''\<rparr>]
   \<and> strategy_UI_BUILD_RECIPE
       [\<lparr>name = ''Passwordless'', choice_value = ''passwordless''\<rparr>,
        \<lparr>name = ''Email Password'', choice_value = ''emailpassword''\<rparr>]
       \<lparr>uibuild = None, frontend = Some ''react''\<rparr>
     = Inr [\<lparr>name = ''Email Password'', choice_value = ''emailpassword''\<rparr>]"
  using recipe_strategy_result
          [of "\<lparr>uibuild = Some ''pre-built'', frontend = Some ''vue''\<rparr>"
              "[\<lparr>name = ''Passwordless'', choice_value = ''passwordless''\<rparr>]"]
        recipe_strategy_result
          [of "\<lparr>uibuild = None, frontend = Some ''react''\<rparr>"
              "[\<lparr>name = ''Passwordless'', choice_value = ''passwordless''\<rparr>,
                \<lparr>name = ''Email Password'', choice_value = ''emailpassword''\<rparr>]"]
  by simp

text \<open>
  Claim C5. Without a strategy argument \<open>filterChoices(flags)(choices)\<close> resolves to
  the choices unchanged (also when they arrive as a resolved promise), and the empty
  array of strategies behaves as the omitted argument on every first argument.
\<close>

theorem filterChoices_no_strategy:
  "filterChoices flags (Resolved choices) Omitted = Inr (Choices choices)
   \<and> filterChoices flags (Pending (Inr v)) Omitted = Inr v
   \<and> filterChoices flags arg (Many []) = filterChoices flags arg Omitted"
  by (simp add: filterChoices_def filterChoices_resolved_def
      split: choices_arg.splits sum.splits)

text \<open>
  Claim C6. \<open>filterChoices(flags)(choices, [s1, s2])\<close> equals
  \<open>filterChoices(flags)(filterChoices(flags)(choices, [s1]), [s2])\<close>, the inner call's
  promise being the outer call's first argument; and a single identifier \<open>s\<close> behaves
  as the one-element array \<open>[s]\<close>. The identifiers are applied, from left to right, each
  on the output of the one before: a one-element array gives the result of the strategy
  registered under its identifier, a longer array gives what the rest of the array makes
  of the result of its first identifier, and the pair of the two registered identifiers
  gives the second strategy's result on the first strategy's output, or the first
  strategy's error.
\<close>

theorem filterChoices_sequential:
  "filterChoices flags (Resolved choices) (Many [s1, s2])
     = filterChoices flags (Pending (filterChoices flags (Resolved choices) (Many [s1])))
         (Many [s2])
   \<and> filterChoices flags (Resolved choices) (Single s)
     = filterChoices flags (Resolved choices) (Many [s])
   \<and> filterChoices flags (Resolved choices) (Many [UI_BUILD_FRONTEND])
     = resolved_choices (strategy_UI_BUILD_FRONTEND choices flags)
   \<and> filterChoices flags (Resolved choices) (Many [UI_BUILD_RECIPE])
     = resolved_choices (strategy_UI_BUILD_RECIPE choices flags)
   \<and> filterChoices flags (Resolved choices) (Many (s # rest))
     = filterChoices flags (Pending (filterChoices flags (Resolved choices) (Many [s])))
         (Many rest)
   \<and> filterChoices flags (Resolved choices) (Many [UI_BUILD_FRONTEND, UI_BUILD_RECIPE])
     = (case strategy_UI_BUILD_FRONTEND choices flags of
          Inl e \<Rightarrow> Inl e
        | Inr mid \<Rightarrow> resolved_choices (strategy_UI_BUILD_RECIPE mid flags))
   \<and> filterChoices flags (Resolved choices) (Many [UI_BUILD_RECIPE, UI_BUILD_FRONTEND])
     = (case strategy_UI_BUILD_RECIPE choices flags of
          Inl e \<Rightarrow> Inl e
        | Inr mid \<Rightarrow> resolved_choices (strategy_UI_BUILD_FRONTEND mid flags))"
proof -
  have step: "filterChoices flags (Resolved choices) (Many (x # xs))
     = filterChoices flags (Pending (filterChoices flags (Resolved choices) (Many [x])))
         (Many xs)" for x xs
  proof -
    have "apply_strategies flags ([x] @ xs) (Choices choices) =
            (case apply_strategies flags [x] (Choices choices) of
               Inl e \<Rightarrow> Inl e | Inr mid \<Rightarrow> apply_strategies flags xs mid)"
      by (rule apply_strategies_append)
    then show ?thesis
      by (simp add: filterChoices_def filterChoices_resolved_Many split: sum.splits)
  qed
  have single: "filterChoices flags (Resolved choices) (Single s)
     = filterChoices flags (Resolved choices) (Many [s])"
    by (simp add: filterChoices_def filterChoices_resolved_Many filterChoices_resolved_Single)
  have frontend: "filterChoices flags (Resolved choices) (Many [UI_BUILD_FRONTEND])
     = resolved_choices (strategy_UI_BUILD_FRONTEND choices flags)"
    by (simp add: filterChoices_def filterChoices_resolved_Many call_UI_BUILD_FRONTEND_def
        split: sum.splits)
  have recipe: "filterChoices flags (Resolved choices) (Many [UI_BUILD_RECIPE])
     = resolved_choices (strategy_UI_BUILD_RECIPE choices flags)"
    by (simp add: filterChoices_def filterChoices_resolved_Many call_UI_BUILD_RECIPE_def
        split: sum.splits)
  have fr: "filterChoices flags (Resolved choices) (Many [UI_BUILD_FRONTEND, UI_BUILD_RECIPE])
     = (case strategy_UI_BUILD_FRONTEND choices flags of
          Inl e \<Rightarrow> Inl e
        | Inr mid \<Rightarrow> resolved_choices (strategy_UI_BUILD_RECIPE mid flags))"
    by (simp add: filterChoices_def filterChoices_resolved_Many call_UI_BUILD_FRONTEND_def
        call_UI_BUILD_RECIPE_def resolved_choices_def split: sum.splits)
  have rf: "filterChoices flags (Resolved choices) (Many [UI_BUILD_RECIPE, UI_BUILD_FRONTEND])
     = (case strategy_UI_BUILD_RECIPE choices flags of
          Inl e \<Rightarrow> Inl e
        | Inr mid \<Rightarrow> resolved_choices (strategy_UI_BUILD_FRONTEND mid flags))"
    by (simp add: filterChoices_def filterChoices_resolved_Many call_UI_BUILD_FRONTEND_def
        call_UI_BUILD_RECIPE_def resolved_choices_def split: sum.splits)
  show ?thesis
    by (intro conjI) (rule step single frontend recipe fr rf)+
qed




text \<open>
  Claim C8. With a custom function \<open>f\<close> as the strategy,
  \<open>filterChoices(flags)(choices, f)\<close> is \<open>f(choices)\<close>, whether \<open>f\<close> resolves or rejects:
  the registry is not consulted, an error of \<open>f\<close> reaches the caller as it is, and the
  result does not depend on the flags.
\<close>

theorem filterChoices_custom_function:
  "filterChoices flags (Resolved choices) (Custom f) = f (Choices choices)
   \<and> filterChoices flags (Resolved choices) (Custom f)
     = filterChoices flags' (Resolved choices) (Custom f)"
  by (simp add: filterChoices_def filterChoices_resolved_def)





end
